theory Spec2Isabelle
  imports Complex_Main "HOL-Library.AList"
begin

section \<open>Python values, errors and strings\<close>

text \<open>
  The harness \<^verbatim>\<open>DFTD4Harness\<close> of \<^verbatim>\<open>qcengine/programs/dftd4.py\<close> moves untyped
  Python values between dictionaries (\<^verbatim>\<open>keywords\<close>, \<^verbatim>\<open>extras\<close>, the plan returned by
  \<^verbatim>\<open>from_arrays\<close>, the \<^verbatim>\<open>qcvars\<close> bag). They are modelled by one datatype. The type
  parameter \<open>'f\<close> stands for 64-bit floating-point numbers: the harness never looks
  inside one, and every floating-point operation it performs is a field of the
  environment below, so no property proved here depends on how floats round.
  A numpy array is its flattened list of elements. Dictionaries are association
  lists in insertion order, as Python dictionaries are.
\<close>

datatype 'f pyval =
    PNone
  | PBool bool
  | PInt int
  | PFloat 'f
  | PStr string
  | PArray "'f list"
  | PList "'f pyval list"
  | PDict "(string \<times> 'f pyval) list"

type_synonym 'f pydict = "(string \<times> 'f pyval) list"

text \<open>
  Every exception the harness can meet is a value. \<open>MissingDependency\<close> is what
  \<^verbatim>\<open>which_import(..., raise_error=True)\<close> raises, \<open>InputError\<close> is the class imported
  from \<^verbatim>\<open>..exceptions\<close>, \<open>OtherError\<close> is any other exception class raised by an
  external collaborator, tagged with its name.
\<close>

datatype error =
    MissingDependency
  | InputError
  | KeyError
  | TypeError
  | IndexError
  | AttributeError
  | ValueError
  | AssertionError
  | OtherError string

text \<open>
  Strings are lists of 8-bit characters; \<^verbatim>\<open>str.lower\<close> and \<^verbatim>\<open>str.upper\<close> are modelled
  on the ASCII letters and leave every other character alone.
\<close>

definition lower_char :: "char \<Rightarrow> char" where
  "lower_char c =
     (let n = (of_char c :: nat) in if 65 \<le> n \<and> n \<le> 90 then char_of (n + 32) else c)"

definition upper_char :: "char \<Rightarrow> char" where
  "upper_char c =
     (let n = (of_char c :: nat) in if 97 \<le> n \<and> n \<le> 122 then char_of (n - 32) else c)"

definition lower :: "string \<Rightarrow> string" where
  "lower s = map lower_char s"

definition upper :: "string \<Rightarrow> string" where
  "upper s = map upper_char s"

text \<open>\<^verbatim>\<open>s.startswith(p)\<close> and \<^verbatim>\<open>s.endswith(p)\<close>.\<close>

definition startswith :: "string \<Rightarrow> string \<Rightarrow> bool" where
  "startswith s p \<longleftrightarrow> take (length p) s = p"

definition endswith :: "string \<Rightarrow> string \<Rightarrow> bool" where
  "endswith s p \<longleftrightarrow> length p \<le> length s \<and> drop (length s - length p) s = p"

text \<open>
  The slice \<^verbatim>\<open>s[:-k]\<close> for a natural number \<open>k\<close>. For \<open>k = 0\<close> Python reads
  \<^verbatim>\<open>s[:0]\<close>, the empty string; for \<open>k\<close> beyond the length the slice is empty too.
\<close>

definition slice_to_neg :: "string \<Rightarrow> nat \<Rightarrow> string" where
  "slice_to_neg s k = (if k = 0 then [] else take (length s - k) s)"

text \<open>\<^verbatim>\<open>d.get(k, None)\<close>, \<^verbatim>\<open>d[k]\<close> and \<^verbatim>\<open>d.update(e)\<close> on a dictionary.\<close>

definition dict_get :: "'f pydict \<Rightarrow> string \<Rightarrow> 'f pyval" where
  "dict_get d k = (case map_of d k of None \<Rightarrow> PNone | Some v \<Rightarrow> v)"

definition dict_index :: "'f pydict \<Rightarrow> string \<Rightarrow> error + 'f pyval" where
  "dict_index d k = (case map_of d k of None \<Rightarrow> Inl KeyError | Some v \<Rightarrow> Inr v)"

definition dict_update :: "'f pydict \<Rightarrow> 'f pydict \<Rightarrow> 'f pydict" where
  "dict_update d e = foldl (\<lambda>acc kv. AList.update (fst kv) (snd kv) acc) d e"

text \<open>
  \<^verbatim>\<open>v[k]\<close> with a string key on an arbitrary value: a dictionary looks the key up,
  a numpy array raises IndexError, everything else TypeError.
\<close>

fun pyval_index :: "'f pyval \<Rightarrow> string \<Rightarrow> error + 'f pyval" where
  "pyval_index (PDict d) k = dict_index d k"
| "pyval_index (PArray xs) k = Inl IndexError"
| "pyval_index v k = Inl TypeError"

text \<open>\<^verbatim>\<open>v.lower()\<close> and \<^verbatim>\<open>v.upper()\<close>: only strings have these methods.\<close>

fun str_lower :: "'f pyval \<Rightarrow> error + string" where
  "str_lower (PStr s) = Inr (lower s)"
| "str_lower v = Inl AttributeError"

fun str_upper :: "'f pyval \<Rightarrow> error + string" where
  "str_upper (PStr s) = Inr (upper s)"
| "str_upper v = Inl AttributeError"

text \<open>
  Truth value of a Python object, given the test for a float being zero. An array
  of more than one element has no truth value (numpy raises ValueError).
\<close>

fun truthy :: "('f \<Rightarrow> bool) \<Rightarrow> 'f pyval \<Rightarrow> error + bool" where
  "truthy z PNone = Inr False"
| "truthy z (PBool b) = Inr b"
| "truthy z (PInt n) = Inr (n \<noteq> 0)"
| "truthy z (PFloat x) = Inr (\<not> z x)"
| "truthy z (PStr s) = Inr (s \<noteq> [])"
| "truthy z (PArray xs) =
     (case xs of [] \<Rightarrow> Inr False
      | x # rest \<Rightarrow> if rest = [] then Inr (\<not> z x) else Inl ValueError)"
| "truthy z (PList vs) = Inr (vs \<noteq> [])"
| "truthy z (PDict d) = Inr (d \<noteq> [])"

section \<open>Requests, results and the environment\<close>

text \<open>
  \<^verbatim>\<open>AtomicInput\<close> and \<^verbatim>\<open>AtomicResult\<close> with the fields the harness reads or writes:
  \<open>model_method\<close> is \<^verbatim>\<open>model.method\<close>, \<open>return_energy\<close> is \<^verbatim>\<open>properties.return_energy\<close>.
  The molecule, the basis, the protocols and the provenance are handed through
  untouched and are left out.
\<close>

datatype driver_enum = Energy | Gradient | Hessian | Properties

record 'f atomic_input =
  driver :: driver_enum
  model_method :: string
  keywords_dict :: "'f pydict"
  extras :: "'f pydict"

record 'f atomic_result =
  return_energy :: 'f
  return_result :: "'f pyval"
  out_extras :: "'f pydict"

text \<open>
  What the harness calls but does not define: the import machinery
  (\<open>which_import\<close> is the location of the module \<^verbatim>\<open>dftd4\<close>, \<open>None\<close> when it cannot be
  imported), the backend's \<^verbatim>\<open>__version__\<close> and \<^verbatim>\<open>safe_version\<close>, the plan resolver
  \<^verbatim>\<open>from_arrays\<close> (name hint, level hint, parameter tweaks, coefficient supplement;
  \<^verbatim>\<open>verbose\<close> is always 1), the alias table \<^verbatim>\<open>get_dispersion_aliases()\<close>, the backend
  entry point \<^verbatim>\<open>run_qcschema\<close>, and the floating-point operations used in the
  consistency check of the pairwise energies.
\<close>

record 'f env =
  which_import :: "string option"
  dftd4_version :: string
  safe_version :: "string \<Rightarrow> string"
  from_arrays :: "string \<Rightarrow> 'f pyval \<Rightarrow> 'f pyval \<Rightarrow> 'f pyval \<Rightarrow> error + 'f pyval"
  get_dispersion_aliases :: "(string \<times> string) list"
  run_qcschema :: "'f atomic_input \<Rightarrow> error + 'f atomic_result"
  np_sum :: "'f list \<Rightarrow> 'f"
  fadd :: "'f \<Rightarrow> 'f \<Rightarrow> 'f"
  fsub :: "'f \<Rightarrow> 'f \<Rightarrow> 'f"
  fabs :: "'f \<Rightarrow> 'f"
  fless :: "'f \<Rightarrow> 'f \<Rightarrow> bool"
  f_1e_8 :: 'f
  fis_zero :: "'f \<Rightarrow> bool"

section \<open>The harness\<close>

subsection \<open>\<^verbatim>\<open>found\<close> and \<^verbatim>\<open>get_version\<close>\<close>

text \<open>
  \<^verbatim>\<open>which_import("dftd4", return_bool=True, raise_error=raise_error, ...)\<close>: true when
  the module is there, otherwise the error or false.
\<close>

definition found :: "'f env \<Rightarrow> bool \<Rightarrow> error + bool" where
  "found env raise_error =
     (case which_import env of
        Some p \<Rightarrow> Inr True
      | None \<Rightarrow> if raise_error then Inl MissingDependency else Inr False)"



subsection \<open>\<^verbatim>\<open>compute\<close>: building the request for the backend\<close>

text \<open>
  Strip engine hint. \<open>input_data\<close> is the working copy \<^verbatim>\<open>input_model.dict()\<close>, \<open>mtd\<close> the
  local method string; the step returns both.
\<close>

definition strip_engine_hint :: "'f atomic_input \<Rightarrow> string \<times> 'f atomic_input" where
  "strip_engine_hint input_model =
     (let input_data = input_model;
          mtd = model_method input_model
      in if startswith mtd ''d4-''
         then (drop 3 mtd, input_data\<lparr>model_method := drop 3 mtd\<rparr>)
         else (mtd, input_data))"

text \<open>The arguments of the call of \<^verbatim>\<open>from_arrays\<close>, and the call.\<close>

definition from_arrays_args ::
  "'f atomic_input \<Rightarrow> string \<Rightarrow> string \<times> 'f pyval \<times> 'f pyval \<times> 'f pyval" where
  "from_arrays_args input_model mtd =
     (let param_tweaks =
            (if mtd \<noteq> [] then PNone else dict_get (keywords_dict input_model) ''params_tweaks'')
      in (mtd,
          dict_get (keywords_dict input_model) ''level_hint'',
          param_tweaks,
          dict_get (keywords_dict input_model) ''dashcoeff_supplement''))"

definition call_from_arrays ::
  "'f env \<Rightarrow> string \<times> 'f pyval \<times> 'f pyval \<times> 'f pyval \<Rightarrow> error + 'f pyval" where
  "call_from_arrays env args =
     (case args of (name_hint, level_hint, param_tweaks, dashcoeff_supplement) \<Rightarrow>
        from_arrays env name_hint level_hint param_tweaks dashcoeff_supplement)"

text \<open>
  The \<^verbatim>\<open>try\<close> statement: an InputError is passed over, a plan is stashed under
  \<^verbatim>\<open>extras["info"]\<close>, any other exception leaves \<^verbatim>\<open>compute\<close>.
\<close>

definition stash_plan ::
  "'f env \<Rightarrow> 'f atomic_input \<Rightarrow> string \<Rightarrow> 'f atomic_input \<Rightarrow> error + 'f atomic_input" where
  "stash_plan env input_model mtd input_data =
     (case call_from_arrays env (from_arrays_args input_model mtd) of
        Inl e \<Rightarrow> if e = InputError then Inr input_data else Inl e
      | Inr planinfo \<Rightarrow>
          Inr (input_data\<lparr>extras := AList.update ''info'' planinfo (extras input_data)\<rparr>))"

text \<open>
  Strip dispersion level from method: one round of the \<^verbatim>\<open>for\<close> loop over the items
  of the alias table, and the loop.
\<close>

definition strip_step ::
  "string \<times> 'f atomic_input \<Rightarrow> string \<times> string \<Rightarrow> string \<times> 'f atomic_input" where
  "strip_step st item =
     (case st of (mtd, input_data) \<Rightarrow>
      case item of (alias, d4) \<Rightarrow>
        if d4 = ''d4bj'' \<and> endswith (lower mtd) alias
        then (let mtd' = slice_to_neg mtd (length alias + 1)
              in (mtd', input_data\<lparr>model_method := mtd'\<rparr>))
        else (mtd, input_data))"

definition strip_dispersion_level ::
  "'f env \<Rightarrow> string \<times> 'f atomic_input \<Rightarrow> string \<times> 'f atomic_input" where
  "strip_dispersion_level env st = foldl strip_step st (get_dispersion_aliases env)"

text \<open>Consolidate dispersion level aliases.\<close>

definition consolidate_level_hint ::
  "'f env \<Rightarrow> 'f atomic_input \<Rightarrow> 'f atomic_input \<Rightarrow> error + 'f atomic_input" where
  "consolidate_level_hint env input_model input_data =
     (let level_hint = dict_get (keywords_dict input_model) ''level_hint''
      in case truthy (fis_zero env) level_hint of
           Inl e \<Rightarrow> Inl e
         | Inr t \<Rightarrow>
             if \<not> t then Inr input_data
             else (case str_lower level_hint of
                     Inl e \<Rightarrow> Inl e
                   | Inr l \<Rightarrow>
                       (case map_of (get_dispersion_aliases env) l of
                          None \<Rightarrow> Inl KeyError
                        | Some d4 \<Rightarrow>
                            if d4 = ''d4bj''
                            then Inr (input_data\<lparr>keywords_dict :=
                                   AList.update ''level_hint'' (PStr ''d4'') (keywords_dict input_data)\<rparr>)
                            else Inr input_data)))"

text \<open>
  Everything \<^verbatim>\<open>compute\<close> does between the availability check and the call of the
  backend: the result is the request rebuilt by \<^verbatim>\<open>AtomicInput(**input_data)\<close>. The
  working copy comes from a valid request and only its method, its level hint
  and its \<^verbatim>\<open>info\<close> entry were replaced, so the constructor keeps the fields.
\<close>

definition build_input :: "'f env \<Rightarrow> 'f atomic_input \<Rightarrow> error + 'f atomic_input" where
  "build_input env input_model =
     (case strip_engine_hint input_model of (mtd, input_data) \<Rightarrow>
        (case stash_plan env input_model mtd input_data of
           Inl e \<Rightarrow> Inl e
         | Inr input_data1 \<Rightarrow>
             (case strip_dispersion_level env (mtd, input_data1) of (mtd2, input_data2) \<Rightarrow>
                consolidate_level_hint env input_model input_data2)))"

subsection \<open>\<^verbatim>\<open>compute\<close>: the derived quantities\<close>

text \<open>\<^verbatim>\<open>v.sum()\<close>: a method of numpy arrays.\<close>

fun py_sum :: "'f env \<Rightarrow> 'f pyval \<Rightarrow> error + 'f" where
  "py_sum env (PArray xs) = Inr (np_sum env xs)"
| "py_sum env v = Inl AttributeError"

text \<open>
  The test of the \<^verbatim>\<open>assert\<close>: \<^verbatim>\<open>abs(s2 + s3 - ene) < 1.0e-8\<close>. The statement is
  taken as executed, as it is unless Python runs with assertions switched off.
\<close>

definition sums_agree :: "'f env \<Rightarrow> 'f \<Rightarrow> 'f \<Rightarrow> 'f \<Rightarrow> bool" where
  "sums_agree env s2 s3 ene \<longleftrightarrow>
     fless env (fabs env (fsub env (fadd env s2 s3) ene)) (f_1e_8 env)"

text \<open>The body of \<^verbatim>\<open>if input_model.keywords.get("pair_resolved") is True\<close>.\<close>

definition pair_resolved_entries ::
  "'f env \<Rightarrow> 'f atomic_result \<Rightarrow> 'f \<Rightarrow> 'f pydict \<Rightarrow> error + 'f pydict" where
  "pair_resolved_entries env output ene calcinfo =
     (case dict_index (out_extras output) ''dftd4'' of Inl e \<Rightarrow> Inl e | Inr d2 \<Rightarrow>
     (case pyval_index d2 ''additive pairwise energy'' of Inl e \<Rightarrow> Inl e | Inr pw2 \<Rightarrow>
     (case dict_index (out_extras output) ''dftd4'' of Inl e \<Rightarrow> Inl e | Inr d3 \<Rightarrow>
     (case pyval_index d3 ''non-additive pairwise energy'' of Inl e \<Rightarrow> Inl e | Inr pw3 \<Rightarrow>
     (case py_sum env pw2 of Inl e \<Rightarrow> Inl e | Inr s2 \<Rightarrow>
     (case py_sum env pw3 of Inl e \<Rightarrow> Inl e | Inr s3 \<Rightarrow>
        if \<not> sums_agree env s2 s3 ene then Inl AssertionError
        else Inr (AList.update ''3-BODY PAIRWISE DISPERSION CORRECTION ANALYSIS'' pw3
                 (AList.update ''2-BODY PAIRWISE DISPERSION CORRECTION ANALYSIS'' pw2
                 (AList.update ''3-BODY DISPERSION CORRECTION ENERGY'' (PFloat s3)
                 (AList.update ''2-BODY DISPERSION CORRECTION ENERGY'' (PFloat s2)
                    calcinfo))))))))))"

text \<open>The energy and gradient entries of \<^verbatim>\<open>calcinfo\<close>.\<close>

definition energy_entries :: "string \<Rightarrow> 'f \<Rightarrow> 'f pydict" where
  "energy_entries qcvkey ene =
     (let calcinfo = AList.update ''CURRENT ENERGY'' (PFloat ene) [];
          calcinfo = AList.update ''DISPERSION CORRECTION ENERGY'' (PFloat ene) calcinfo
      in if qcvkey \<noteq> []
         then AList.update (qcvkey @ '' DISPERSION CORRECTION ENERGY'') (PFloat ene) calcinfo
         else calcinfo)"

definition gradient_entries :: "string \<Rightarrow> 'f pyval \<Rightarrow> 'f pydict \<Rightarrow> 'f pydict" where
  "gradient_entries qcvkey grad calcinfo0 =
     (let calcinfo = AList.update ''CURRENT GRADIENT'' grad calcinfo0;
          calcinfo = AList.update ''DISPERSION CORRECTION GRADIENT'' grad calcinfo
      in if qcvkey \<noteq> []
         then AList.update (qcvkey @ '' DISPERSION CORRECTION GRADIENT'') grad calcinfo
         else calcinfo)"

text \<open>The block \<^verbatim>\<open>if "info" in input_model.extras\<close>, on the rebuilt request.\<close>

definition annotate ::
  "'f env \<Rightarrow> 'f atomic_input \<Rightarrow> 'f atomic_result \<Rightarrow> error + 'f atomic_result" where
  "annotate env input_model output =
     (case map_of (extras input_model) ''info'' of
        None \<Rightarrow> Inr output
      | Some info \<Rightarrow>
          (case pyval_index info ''fctldash'' of Inl e \<Rightarrow> Inl e | Inr fd \<Rightarrow>
          (case str_upper fd of Inl e \<Rightarrow> Inl e | Inr qcvkey \<Rightarrow>
             (let ene = return_energy output;
                  calcinfo = energy_entries qcvkey ene;
                  calcinfo = (if driver input_model = Gradient
                              then gradient_entries qcvkey (return_result output) calcinfo
                              else calcinfo)
              in (case (if dict_get (keywords_dict input_model) ''pair_resolved'' = PBool True
                        then pair_resolved_entries env output ene calcinfo
                        else Inr calcinfo) of
                    Inl e \<Rightarrow> Inl e
                  | Inr calcinfo' \<Rightarrow>
                      Inr (output\<lparr>out_extras :=
                             AList.update ''qcvars'' (PDict calcinfo') (out_extras output)\<rparr>))))))"

subsection \<open>\<^verbatim>\<open>compute\<close>\<close>

definition compute :: "'f env \<Rightarrow> 'f atomic_input \<Rightarrow> error + 'f atomic_result" where
  "compute env input_model =
     (case found env True of
        Inl e \<Rightarrow> Inl e
      | Inr ok \<Rightarrow>
          (case build_input env input_model of
             Inl e \<Rightarrow> Inl e
           | Inr input_model' \<Rightarrow>
               (case run_qcschema env input_model' of
                  Inl e \<Rightarrow> Inl e
                | Inr output \<Rightarrow>
                    annotate env input_model'
                      (output\<lparr>out_extras :=
                         dict_update (out_extras output) (extras input_model')\<rparr>))))"

section \<open>An example environment\<close>

text \<open>
  A concrete environment on which the theorems below are instantiated. Floats
  are rational numbers with exact arithmetic. The resolver knows the functional
  \<^verbatim>\<open>pbe\<close>, accepts an empty name with parameter tweaks, fails with a
  RuntimeError on the name \<^verbatim>\<open>crash\<close> and rejects every other input with InputError.
  The backend returns the request's extras together with its own \<^verbatim>\<open>dftd4\<close> entry.
\<close>

definition example_from_arrays ::
  "string \<Rightarrow> rat pyval \<Rightarrow> rat pyval \<Rightarrow> rat pyval \<Rightarrow> error + rat pyval" where
  "example_from_arrays name_hint level_hint param_tweaks dashcoeff_supplement =
     (if lower name_hint = ''pbe'' \<or> lower name_hint = ''pbe-d4bj''
      then Inr (PDict [(''dashlevel'', PStr ''d4bj''), (''fctldash'', PStr ''pbe-d4'')])
      else if name_hint = [] \<and> param_tweaks \<noteq> PNone
      then Inr (PDict [(''dashlevel'', PStr ''d4bj''), (''fctldash'', PStr [])])
      else if name_hint = ''crash'' then Inl (OtherError ''RuntimeError'')
      else Inl InputError)"

definition example_run_qcschema :: "rat list \<Rightarrow> rat atomic_input \<Rightarrow> error + rat atomic_result" where
  "example_run_qcschema pw3 request =
     Inr \<lparr>return_energy = - 3 / 1000,
          return_result =
            (if driver request = Gradient then PArray [1 / 100, 0, 0, - 1 / 100, 0, 0]
             else PFloat (- 3 / 1000)),
          out_extras =
            AList.update ''dftd4''
              (PDict [(''additive pairwise energy'', PArray [0, - 1 / 1000, - 1 / 1000, 0]),
                      (''non-additive pairwise energy'', PArray pw3)])
              (extras request)\<rparr>"


definition example_env :: "rat env" where
  "example_env =
     \<lparr>which_import = Some ''/opt/lib/python3/site-packages/dftd4/__init__.py'',
      dftd4_version = ''3.6.0'',
      safe_version = (\<lambda>v. v),
      from_arrays = example_from_arrays,
      get_dispersion_aliases = [(''d3'', ''d3zero''), (''d4'', ''d4bj''), (''d4bj'', ''d4bj'')],
      run_qcschema = example_run_qcschema [0, - 1 / 2000, - 1 / 2000, 0],
      np_sum = sum_list,
      fadd = (\<lambda>x y. x + y),
      fsub = (\<lambda>x y. x - y),
      fabs = abs,
      fless = (\<lambda>x y. x < y),
      f_1e_8 = 1 / 100000000,
      fis_zero = (\<lambda>x. x = 0)\<rparr>"

definition example_input :: "driver_enum \<Rightarrow> string \<Rightarrow> rat pydict \<Rightarrow> rat pydict \<Rightarrow> rat atomic_input" where
  "example_input d m kw ex = \<lparr>driver = d, model_method = m, keywords_dict = kw, extras = ex\<rparr>"

section \<open>Basic facts\<close>

lemmas string_defs =
  lower_def lower_char_def upper_def upper_char_def char_of_eq_iff
  startswith_def endswith_def slice_to_neg_def

lemmas example_defs =
  example_env_def example_from_arrays_def example_run_qcschema_def example_input_def

lemmas dict_defs = dict_get_def dict_index_def dict_update_def

lemmas build_defs =
  build_input_def strip_engine_hint_def stash_plan_def call_from_arrays_def
  from_arrays_args_def strip_dispersion_level_def strip_step_def
  consolidate_level_hint_def

lemmas annotate_defs =
  annotate_def energy_entries_def gradient_entries_def pair_resolved_entries_def
  sums_agree_def




lemma length_lower: "length (lower s) = length s"
  by (simp add: lower_def)




text \<open>The request is built from what the first step leaves.\<close>

lemma build_input_after_prefix:
  "build_input env im =
     (case stash_plan env im (fst (strip_engine_hint im)) (snd (strip_engine_hint im)) of
        Inl e \<Rightarrow> Inl e
      | Inr d1 \<Rightarrow>
          consolidate_level_hint env im
            (snd (strip_dispersion_level env (fst (strip_engine_hint im), d1))))"
  by (simp add: build_input_def split: prod.splits sum.splits)

section \<open>The engine prefix\<close>



section \<open>The dispersion level suffix\<close>


lemma strip_step_miss:
  "d4 \<noteq> ''d4bj'' \<or> \<not> endswith (lower mtd) alias \<Longrightarrow> strip_step (mtd, d) (alias, d4) = (mtd, d)"
  by (auto simp: strip_step_def)

text \<open>
  Claim C1. The loop tests that the lower-cased method ends with the alias and
  then removes one character more than the alias has, without looking at that
  character. The method \<^verbatim>\<open>pbed4bj\<close> ends with the alias \<^verbatim>\<open>d4bj\<close> and not with
  \<^verbatim>\<open>-d4bj\<close>; the round for this alias cuts it to \<^verbatim>\<open>pb\<close>, and that is the method of
  the request built for the backend.
\<close>

theorem strip_level_without_separator:
  "endswith (lower ''pbed4bj'') ''d4bj'' \<and>
   \<not> endswith (lower ''pbed4bj'') (''-'' @ ''d4bj'') \<and>
   strip_step (''pbed4bj'', example_input Energy ''pbed4bj'' [] []) (''d4bj'', ''d4bj'') =
     (''pb'', example_input Energy ''pb'' [] []) \<and>
   build_input example_env (example_input Energy ''pbed4bj'' [] []) =
     Inr (example_input Energy ''pb'' [] [])"
  by (simp add: example_defs string_defs build_defs dict_defs Let_def)



section \<open>The plan resolution\<close>

text \<open>The steps that build the request change neither the extras nor the driver.\<close>

lemma strip_engine_hint_fields:
  "extras (snd (strip_engine_hint im)) = extras im"
  "keywords_dict (snd (strip_engine_hint im)) = keywords_dict im"
  "driver (snd (strip_engine_hint im)) = driver im"
  by (simp_all add: strip_engine_hint_def Let_def)

lemma strip_step_fields:
  "extras (snd (strip_step st item)) = extras (snd st)"
  "keywords_dict (snd (strip_step st item)) = keywords_dict (snd st)"
  "driver (snd (strip_step st item)) = driver (snd st)"
  by (simp_all add: strip_step_def Let_def split: prod.splits)

lemma strip_dispersion_level_fields:
  "extras (snd (strip_dispersion_level env st)) = extras (snd st)"
  "keywords_dict (snd (strip_dispersion_level env st)) = keywords_dict (snd st)"
  "driver (snd (strip_dispersion_level env st)) = driver (snd st)"
proof -
  have "extras (snd (foldl strip_step st xs)) = extras (snd st) \<and>
        keywords_dict (snd (foldl strip_step st xs)) = keywords_dict (snd st) \<and>
        driver (snd (foldl strip_step st xs)) = driver (snd st)" for xs
    by (induction xs arbitrary: st) (simp_all add: strip_step_fields)
  then show "extras (snd (strip_dispersion_level env st)) = extras (snd st)"
    "keywords_dict (snd (strip_dispersion_level env st)) = keywords_dict (snd st)"
    "driver (snd (strip_dispersion_level env st)) = driver (snd st)"
    by (simp_all add: strip_dispersion_level_def)
qed

lemma consolidate_level_hint_fields:
  assumes "consolidate_level_hint env im d = Inr r"
  shows "extras r = extras d" and "driver r = driver d" and "model_method r = model_method d"
    and "k \<noteq> ''level_hint'' \<Longrightarrow> map_of (keywords_dict r) k = map_of (keywords_dict d) k"
  using assms
  by (auto simp: consolidate_level_hint_def Let_def update_conv' split: sum.splits if_splits option.splits)

lemma stash_plan_cases:
  "stash_plan env im mtd d =
     (case call_from_arrays env (from_arrays_args im mtd) of
        Inl e \<Rightarrow> if e = InputError then Inr d else Inl e
      | Inr plan \<Rightarrow> Inr (d\<lparr>extras := AList.update ''info'' plan (extras d)\<rparr>))"
  by (simp add: stash_plan_def)

text \<open>
  Claim C3. The call of the resolver is made with the prefix-stripped method.
  If it raises InputError, the working copy stays as it is and the later steps
  run on it: the request that is built has the extras of the original request,
  nothing was stashed. If it returns a plan, the plan is stored under \<^verbatim>\<open>info\<close> in
  the extras of the working copy and is there in the request that is built. Any
  other error leaves the plan step, the building of the request and, when the
  backend is installed, \<^verbatim>\<open>compute\<close> itself as the same error.
\<close>

theorem plan_resolution_recovery:
  "(call_from_arrays env (from_arrays_args im (fst (strip_engine_hint im))) = Inl InputError \<longrightarrow>
      stash_plan env im (fst (strip_engine_hint im)) d = Inr d \<and>
      build_input env im =
        consolidate_level_hint env im (snd (strip_dispersion_level env (strip_engine_hint im))) \<and>
      (\<forall>r. build_input env im = Inr r \<longrightarrow> extras r = extras im)) \<and>
   (call_from_arrays env (from_arrays_args im (fst (strip_engine_hint im))) = Inr plan \<longrightarrow>
      stash_plan env im (fst (strip_engine_hint im)) d =
        Inr (d\<lparr>extras := AList.update ''info'' plan (extras d)\<rparr>) \<and>
      (\<forall>r. build_input env im = Inr r \<longrightarrow>
         extras r = AList.update ''info'' plan (extras im) \<and>
         map_of (extras r) ''info'' = Some plan)) \<and>
   (call_from_arrays env (from_arrays_args im (fst (strip_engine_hint im))) = Inl e \<and>
    e \<noteq> InputError \<longrightarrow>
      stash_plan env im (fst (strip_engine_hint im)) d = Inl e \<and>
      build_input env im = Inl e \<and>
      (which_import env \<noteq> None \<longrightarrow> compute env im = Inl e))"
proof (intro conjI impI allI)
  assume a: "call_from_arrays env (from_arrays_args im (fst (strip_engine_hint im))) = Inl InputError"
  show "stash_plan env im (fst (strip_engine_hint im)) d = Inr d"
    using a by (simp add: stash_plan_cases)
  show b: "build_input env im =
        consolidate_level_hint env im (snd (strip_dispersion_level env (strip_engine_hint im)))"
    using a by (simp add: build_input_after_prefix stash_plan_cases)
  fix r assume "build_input env im = Inr r"
  with b show "extras r = extras im"
    by (simp add: consolidate_level_hint_fields(1) strip_dispersion_level_fields strip_engine_hint_fields)
next
  assume a: "call_from_arrays env (from_arrays_args im (fst (strip_engine_hint im))) = Inr plan"
  show "stash_plan env im (fst (strip_engine_hint im)) d =
        Inr (d\<lparr>extras := AList.update ''info'' plan (extras d)\<rparr>)"
    using a by (simp add: stash_plan_cases)
  fix r assume r: "build_input env im = Inr r"
  with a show e: "extras r = AList.update ''info'' plan (extras im)"
    by (simp add: build_input_after_prefix stash_plan_cases consolidate_level_hint_fields(1)
        strip_dispersion_level_fields strip_engine_hint_fields)
  show "map_of (extras r) ''info'' = Some plan"
    by (simp add: e update_conv')
next
  assume a: "call_from_arrays env (from_arrays_args im (fst (strip_engine_hint im))) = Inl e \<and>
    e \<noteq> InputError"
  then show "stash_plan env im (fst (strip_engine_hint im)) d = Inl e"
    by (simp add: stash_plan_cases)
  from a show b: "build_input env im = Inl e"
    by (simp add: build_input_after_prefix stash_plan_cases)
  assume "which_import env \<noteq> None"
  with b show "compute env im = Inl e"
    by (auto simp: compute_def found_def)
qed



text \<open>
  In the example environment: \<^verbatim>\<open>d4-xyz\<close> is rejected by the resolver and goes on
  without a plan, \<^verbatim>\<open>pbe\<close> gets its plan stashed, \<^verbatim>\<open>crash\<close> ends \<^verbatim>\<open>compute\<close> with the
  resolver's RuntimeError.
\<close>

theorem plan_resolution_recovery_witness:
  "call_from_arrays example_env
     (from_arrays_args (example_input Energy ''d4-xyz'' [] [])
        (fst (strip_engine_hint (example_input Energy ''d4-xyz'' [] [])))) = Inl InputError \<and>
   build_input example_env (example_input Energy ''d4-xyz'' [] []) =
     Inr (example_input Energy ''xyz'' [] []) \<and>
   call_from_arrays example_env
     (from_arrays_args (example_input Energy ''pbe'' [] [])
        (fst (strip_engine_hint (example_input Energy ''pbe'' [] [])))) =
     Inr (PDict [(''dashlevel'', PStr ''d4bj''), (''fctldash'', PStr ''pbe-d4'')]) \<and>
   build_input example_env (example_input Energy ''pbe'' [] []) =
     Inr (example_input Energy ''pbe'' []
            [(''info'', PDict [(''dashlevel'', PStr ''d4bj''), (''fctldash'', PStr ''pbe-d4'')])]) \<and>
   call_from_arrays example_env
     (from_arrays_args (example_input Energy ''crash'' [] [])
        (fst (strip_engine_hint (example_input Energy ''crash'' [] [])))) =
     Inl (OtherError ''RuntimeError'') \<and>
   OtherError ''RuntimeError'' \<noteq> InputError \<and>
   which_import example_env \<noteq> None \<and>
   compute example_env (example_input Energy ''crash'' [] []) = Inl (OtherError ''RuntimeError'')"
proof -
  have a: "call_from_arrays example_env
     (from_arrays_args (example_input Energy ''d4-xyz'' [] [])
        (fst (strip_engine_hint (example_input Energy ''d4-xyz'' [] [])))) = Inl InputError"
    by (simp add: example_defs string_defs build_defs dict_defs Let_def)
  have b: "call_from_arrays example_env
     (from_arrays_args (example_input Energy ''pbe'' [] [])
        (fst (strip_engine_hint (example_input Energy ''pbe'' [] [])))) =
     Inr (PDict [(''dashlevel'', PStr ''d4bj''), (''fctldash'', PStr ''pbe-d4'')])"
    by (simp add: example_defs string_defs build_defs dict_defs Let_def)
  have c: "call_from_arrays example_env
     (from_arrays_args (example_input Energy ''crash'' [] [])
        (fst (strip_engine_hint (example_input Energy ''crash'' [] [])))) =
     Inl (OtherError ''RuntimeError'')"
    by (simp add: example_defs string_defs build_defs dict_defs Let_def)
  have w: "which_import example_env \<noteq> None"
    by (simp add: example_env_def)
  have x: "build_input example_env (example_input Energy ''d4-xyz'' [] []) =
     Inr (example_input Energy ''xyz'' [] [])"
    by (simp add: example_defs string_defs build_defs dict_defs Let_def)
  have p: "build_input example_env (example_input Energy ''pbe'' [] []) =
     Inr (example_input Energy ''pbe'' []
            [(''info'', PDict [(''dashlevel'', PStr ''d4bj''), (''fctldash'', PStr ''pbe-d4'')])])"
    by (simp add: example_defs string_defs build_defs dict_defs Let_def)
  show ?thesis
    using a b c w x p
      plan_resolution_recovery [of example_env "example_input Energy ''d4-xyz'' [] []"]
      plan_resolution_recovery [of example_env "example_input Energy ''pbe'' [] []" _
        "PDict [(''dashlevel'', PStr ''d4bj''), (''fctldash'', PStr ''pbe-d4'')]"]
      plan_resolution_recovery [of example_env "example_input Energy ''crash'' [] []" _ _
        "OtherError ''RuntimeError''"]
    by simp
qed





section \<open>The level hint\<close>

text \<open>
  Claim C9. Let the keyword \<^verbatim>\<open>level_hint\<close> be a non-empty string whose lower-cased
  form is not a key of the alias table. Then the consolidation step raises
  KeyError on every working copy; \<^verbatim>\<open>compute\<close> ends with an error and its outcome
  is the same for every backend, so the backend is not reached; and when the
  backend is installed and the resolver returns a plan or raises InputError,
  the error of \<^verbatim>\<open>compute\<close> is this KeyError.
\<close>

theorem unknown_level_hint_key_error:
  "dict_get (keywords_dict im) ''level_hint'' = PStr s \<and> s \<noteq> [] \<and>
   map_of (get_dispersion_aliases env) (lower s) = None \<longrightarrow>
     consolidate_level_hint env im d = Inl KeyError \<and>
     (\<exists>e. compute env im = Inl e) \<and>
     compute (env\<lparr>run_qcschema := backend\<rparr>) im = compute env im \<and>
     (which_import env \<noteq> None \<and>
      (case call_from_arrays env (from_arrays_args im (fst (strip_engine_hint im))) of
         Inl e \<Rightarrow> e = InputError | Inr plan \<Rightarrow> True) \<longrightarrow>
      compute env im = Inl KeyError)"
proof (intro impI)
  assume h: "dict_get (keywords_dict im) ''level_hint'' = PStr s \<and> s \<noteq> [] \<and>
   map_of (get_dispersion_aliases env) (lower s) = None"
  have c: "consolidate_level_hint env im x = Inl KeyError" for x
    using h by (simp add: consolidate_level_hint_def)
  have c': "consolidate_level_hint (env\<lparr>run_qcschema := backend\<rparr>) im x = Inl KeyError" for x
    using h by (simp add: consolidate_level_hint_def)
  have b: "build_input env im =
     (case stash_plan env im (fst (strip_engine_hint im)) (snd (strip_engine_hint im)) of
        Inl e \<Rightarrow> Inl e | Inr d1 \<Rightarrow> Inl KeyError)"
    by (simp add: build_input_after_prefix c split: sum.splits)
  have s': "stash_plan (env\<lparr>run_qcschema := backend\<rparr>) im m x = stash_plan env im m x" for m x
    by (simp add: stash_plan_def call_from_arrays_def)
  have b': "build_input (env\<lparr>run_qcschema := backend\<rparr>) im = build_input env im"
    by (simp add: build_input_after_prefix c c' s' split: sum.splits)
  have e: "\<exists>e. build_input env im = Inl e"
    by (simp add: b split: sum.splits)
  have 1: "\<exists>e. compute env im = Inl e"
    using e by (auto simp: compute_def split: sum.splits)
  have 2: "compute (env\<lparr>run_qcschema := backend\<rparr>) im = compute env im"
    using e by (auto simp: compute_def found_def b' split: sum.splits)
  have 3: "compute env im = Inl KeyError"
    if "which_import env \<noteq> None \<and>
      (case call_from_arrays env (from_arrays_args im (fst (strip_engine_hint im))) of
         Inl e \<Rightarrow> e = InputError | Inr plan \<Rightarrow> True)"
  proof -
    have "build_input env im = Inl KeyError"
      using that by (simp add: b stash_plan_cases split: sum.splits)
    with that show ?thesis
      by (auto simp: compute_def found_def)
  qed
  show "consolidate_level_hint env im d = Inl KeyError \<and>
     (\<exists>e. compute env im = Inl e) \<and>
     compute (env\<lparr>run_qcschema := backend\<rparr>) im = compute env im \<and>
     (which_import env \<noteq> None \<and>
      (case call_from_arrays env (from_arrays_args im (fst (strip_engine_hint im))) of
         Inl e \<Rightarrow> e = InputError | Inr plan \<Rightarrow> True) \<longrightarrow>
      compute env im = Inl KeyError)"
    using c 1 2 3 by blast
qed

text \<open>The level hint \<^verbatim>\<open>D5\<close> in the example environment.\<close>

theorem unknown_level_hint_key_error_witness:
  "dict_get (keywords_dict (example_input Energy ''pbe'' [(''level_hint'', PStr ''D5'')] [])) ''level_hint'' = PStr ''D5'' \<and>
   ''D5'' \<noteq> [] \<and>
   map_of (get_dispersion_aliases example_env) (lower ''D5'') = None \<and>
   which_import example_env \<noteq> None \<and>
   call_from_arrays example_env
     (from_arrays_args (example_input Energy ''pbe'' [(''level_hint'', PStr ''D5'')] [])
        (fst (strip_engine_hint (example_input Energy ''pbe'' [(''level_hint'', PStr ''D5'')] [])))) =
     Inr (PDict [(''dashlevel'', PStr ''d4bj''), (''fctldash'', PStr ''pbe-d4'')]) \<and>
   compute example_env (example_input Energy ''pbe'' [(''level_hint'', PStr ''D5'')] []) = Inl KeyError"
proof -
  have a: "dict_get (keywords_dict (example_input Energy ''pbe'' [(''level_hint'', PStr ''D5'')] [])) ''level_hint'' = PStr ''D5''"
    by (simp add: example_input_def dict_get_def)
  have b: "map_of (get_dispersion_aliases example_env) (lower ''D5'') = None"
    by (simp add: example_env_def string_defs)
  have w: "which_import example_env \<noteq> None"
    by (simp add: example_env_def)
  have c: "call_from_arrays example_env
     (from_arrays_args (example_input Energy ''pbe'' [(''level_hint'', PStr ''D5'')] [])
        (fst (strip_engine_hint (example_input Energy ''pbe'' [(''level_hint'', PStr ''D5'')] [])))) =
     Inr (PDict [(''dashlevel'', PStr ''d4bj''), (''fctldash'', PStr ''pbe-d4'')])"
    by (simp add: example_defs string_defs build_defs dict_defs Let_def)
  show ?thesis
    using unknown_level_hint_key_error
      [of "example_input Energy ''pbe'' [(''level_hint'', PStr ''D5'')] []" "''D5''" example_env]
      a b w c
    by simp
qed


section \<open>The version cache\<close>




section \<open>The derived quantities\<close>

text \<open>How \<^verbatim>\<open>compute\<close> reaches a result, and what the request it builds keeps.\<close>

lemma compute_InrD:
  assumes "compute env im = Inr out"
  shows "\<exists>r out0. which_import env \<noteq> None \<and> build_input env im = Inr r \<and>
           run_qcschema env r = Inr out0 \<and>
           annotate env r (out0\<lparr>out_extras := dict_update (out_extras out0) (extras r)\<rparr>) = Inr out"
  using assms by (auto simp: compute_def found_def split: sum.splits option.splits if_splits)


lemma build_input_fields:
  assumes "build_input env im = Inr r"
  shows "driver r = driver im"
    and "extras r =
           (case call_from_arrays env (from_arrays_args im (fst (strip_engine_hint im))) of
              Inl e \<Rightarrow> extras im
            | Inr plan \<Rightarrow> AList.update ''info'' plan (extras im))"
    and "k \<noteq> ''level_hint'' \<Longrightarrow> map_of (keywords_dict r) k = map_of (keywords_dict im) k"
proof -
  obtain d1 where s: "stash_plan env im (fst (strip_engine_hint im)) (snd (strip_engine_hint im)) = Inr d1"
    and c: "consolidate_level_hint env im
              (snd (strip_dispersion_level env (fst (strip_engine_hint im), d1))) = Inr r"
    using assms by (auto simp: build_input_after_prefix split: sum.splits)
  have d1: "driver d1 = driver im \<and> keywords_dict d1 = keywords_dict im \<and>
     extras d1 = (case call_from_arrays env (from_arrays_args im (fst (strip_engine_hint im))) of
              Inl e \<Rightarrow> extras im
            | Inr plan \<Rightarrow> AList.update ''info'' plan (extras im))"
    using s by (auto simp: stash_plan_cases strip_engine_hint_fields split: sum.splits if_splits)
  show "driver r = driver im"
    using consolidate_level_hint_fields(2) [OF c] d1 by (simp add: strip_dispersion_level_fields)
  show "extras r =
           (case call_from_arrays env (from_arrays_args im (fst (strip_engine_hint im))) of
              Inl e \<Rightarrow> extras im
            | Inr plan \<Rightarrow> AList.update ''info'' plan (extras im))"
    using consolidate_level_hint_fields(1) [OF c] d1 by (simp add: strip_dispersion_level_fields)
  show "map_of (keywords_dict r) k = map_of (keywords_dict im) k" if "k \<noteq> ''level_hint''"
    using consolidate_level_hint_fields(4) [OF c that] d1 by (simp add: strip_dispersion_level_fields)
qed

lemma annotate_no_info:
  "map_of (extras r) ''info'' = None \<Longrightarrow> annotate env r out0 = Inr out0"
  by (simp add: annotate_def)

lemma annotate_info:
  assumes "map_of (extras r) ''info'' = Some info" and "pyval_index info ''fctldash'' = Inr (PStr fd)"
  shows "annotate env r out0 =
     (case (if dict_get (keywords_dict r) ''pair_resolved'' = PBool True
            then pair_resolved_entries env out0 (return_energy out0)
                   (if driver r = Gradient
                    then gradient_entries (upper fd) (return_result out0)
                           (energy_entries (upper fd) (return_energy out0))
                    else energy_entries (upper fd) (return_energy out0))
            else Inr (if driver r = Gradient
                      then gradient_entries (upper fd) (return_result out0)
                             (energy_entries (upper fd) (return_energy out0))
                      else energy_entries (upper fd) (return_energy out0))) of
        Inl e \<Rightarrow> Inl e
      | Inr calcinfo \<Rightarrow>
          Inr (out0\<lparr>out_extras := AList.update ''qcvars'' (PDict calcinfo) (out_extras out0)\<rparr>))"
  using assms by (simp add: annotate_def Let_def)

lemma pair_resolved_entries_other:
  assumes "pair_resolved_entries env out0 ene calcinfo = Inr calcinfo'"
    and "k \<noteq> ''2-BODY DISPERSION CORRECTION ENERGY''"
    and "k \<noteq> ''3-BODY DISPERSION CORRECTION ENERGY''"
    and "k \<noteq> ''2-BODY PAIRWISE DISPERSION CORRECTION ANALYSIS''"
    and "k \<noteq> ''3-BODY PAIRWISE DISPERSION CORRECTION ANALYSIS''"
  shows "map_of calcinfo' k = map_of calcinfo k"
  using assms
  by (auto simp: pair_resolved_entries_def update_conv' split: sum.splits if_splits)

lemma pbe_d4_entries:
  "map_of (gradient_entries ''PBE-D4'' g (energy_entries ''PBE-D4'' e)) ''CURRENT ENERGY'' = Some (PFloat e)"
  "map_of (gradient_entries ''PBE-D4'' g (energy_entries ''PBE-D4'' e)) ''DISPERSION CORRECTION ENERGY'' = Some (PFloat e)"
  "map_of (gradient_entries ''PBE-D4'' g (energy_entries ''PBE-D4'' e)) ''PBE-D4 DISPERSION CORRECTION ENERGY'' = Some (PFloat e)"
  "map_of (gradient_entries ''PBE-D4'' g (energy_entries ''PBE-D4'' e)) ''CURRENT GRADIENT'' = Some g"
  "map_of (gradient_entries ''PBE-D4'' g (energy_entries ''PBE-D4'' e)) ''DISPERSION CORRECTION GRADIENT'' = Some g"
  "map_of (gradient_entries ''PBE-D4'' g (energy_entries ''PBE-D4'' e)) ''PBE-D4 DISPERSION CORRECTION GRADIENT'' = Some g"
  by (simp_all add: gradient_entries_def energy_entries_def)


text \<open>
  Claim C6. Let the driver be \<^verbatim>\<open>gradient\<close>, let the resolver return a plan whose
  \<^verbatim>\<open>fctldash\<close> is \<^verbatim>\<open>pbe-d4\<close> (the plan that is stashed), and let \<^verbatim>\<open>compute\<close> return
  a result. Then \<^verbatim>\<open>extras["qcvars"]\<close> of the result is a dictionary in which
  \<^verbatim>\<open>CURRENT ENERGY\<close>, \<^verbatim>\<open>DISPERSION CORRECTION ENERGY\<close> and
  \<^verbatim>\<open>PBE-D4 DISPERSION CORRECTION ENERGY\<close> hold the returned energy, and
  \<^verbatim>\<open>CURRENT GRADIENT\<close>, \<^verbatim>\<open>DISPERSION CORRECTION GRADIENT\<close> and
  \<^verbatim>\<open>PBE-D4 DISPERSION CORRECTION GRADIENT\<close> hold the returned gradient.
\<close>

theorem gradient_qcvars:
  "driver im = Gradient \<and>
   call_from_arrays env (from_arrays_args im (fst (strip_engine_hint im))) = Inr (PDict plan) \<and>
   map_of plan ''fctldash'' = Some (PStr ''pbe-d4'') \<and>
   compute env im = Inr out \<longrightarrow>
   (\<exists>qcvars.
      map_of (out_extras out) ''qcvars'' = Some (PDict qcvars) \<and>
      map_of qcvars ''CURRENT ENERGY'' = Some (PFloat (return_energy out)) \<and>
      map_of qcvars ''DISPERSION CORRECTION ENERGY'' = Some (PFloat (return_energy out)) \<and>
      map_of qcvars ''PBE-D4 DISPERSION CORRECTION ENERGY'' = Some (PFloat (return_energy out)) \<and>
      map_of qcvars ''CURRENT GRADIENT'' = Some (return_result out) \<and>
      map_of qcvars ''DISPERSION CORRECTION GRADIENT'' = Some (return_result out) \<and>
      map_of qcvars ''PBE-D4 DISPERSION CORRECTION GRADIENT'' = Some (return_result out))"
proof (intro impI)
  assume h: "driver im = Gradient \<and>
   call_from_arrays env (from_arrays_args im (fst (strip_engine_hint im))) = Inr (PDict plan) \<and>
   map_of plan ''fctldash'' = Some (PStr ''pbe-d4'') \<and>
   compute env im = Inr out"
  then obtain r out0 where b: "build_input env im = Inr r"
    and a: "annotate env r (out0\<lparr>out_extras := dict_update (out_extras out0) (extras r)\<rparr>) = Inr out"
    using compute_InrD by blast
  define out1 where "out1 = out0\<lparr>out_extras := dict_update (out_extras out0) (extras r)\<rparr>"
  define base where "base = gradient_entries ''PBE-D4'' (return_result out1)
                              (energy_entries ''PBE-D4'' (return_energy out1))"
  have g: "driver r = Gradient"
    using h build_input_fields(1) [OF b] by simp
  have i: "map_of (extras r) ''info'' = Some (PDict plan)"
    using h build_input_fields(2) [OF b] by (simp add: update_conv')
  have f: "pyval_index (PDict plan) ''fctldash'' = Inr (PStr ''pbe-d4'')"
    using h by (simp add: dict_index_def)
  have u: "upper ''pbe-d4'' = ''PBE-D4''"
    by (simp add: string_defs)
  obtain calcinfo where o: "out = out1\<lparr>out_extras := AList.update ''qcvars'' (PDict calcinfo) (out_extras out1)\<rparr>"
    and c: "calcinfo = base \<or> pair_resolved_entries env out1 (return_energy out1) base = Inr calcinfo"
    using a unfolding annotate_info [OF i f] u out1_def [symmetric] base_def [symmetric]
    by (auto simp: g split: sum.splits if_splits)
  have k: "map_of calcinfo k = map_of base k"
    if "k \<noteq> ''2-BODY DISPERSION CORRECTION ENERGY''"
      "k \<noteq> ''3-BODY DISPERSION CORRECTION ENERGY''"
      "k \<noteq> ''2-BODY PAIRWISE DISPERSION CORRECTION ANALYSIS''"
      "k \<noteq> ''3-BODY PAIRWISE DISPERSION CORRECTION ANALYSIS''" for k
    using c pair_resolved_entries_other [OF _ that] by auto
  have e: "return_energy out = return_energy out1" and rr: "return_result out = return_result out1"
    by (simp_all add: o)
  have q: "map_of (out_extras out) ''qcvars'' = Some (PDict calcinfo)"
    by (simp add: o update_conv')
  have "map_of calcinfo ''CURRENT ENERGY'' = Some (PFloat (return_energy out))"
    by (simp add: k e base_def pbe_d4_entries)
  moreover have "map_of calcinfo ''DISPERSION CORRECTION ENERGY'' = Some (PFloat (return_energy out))"
    by (simp add: k e base_def pbe_d4_entries)
  moreover have "map_of calcinfo ''PBE-D4 DISPERSION CORRECTION ENERGY'' = Some (PFloat (return_energy out))"
    by (simp add: k e base_def pbe_d4_entries)
  moreover have "map_of calcinfo ''CURRENT GRADIENT'' = Some (return_result out)"
    by (simp add: k rr base_def pbe_d4_entries)
  moreover have "map_of calcinfo ''DISPERSION CORRECTION GRADIENT'' = Some (return_result out)"
    by (simp add: k rr base_def pbe_d4_entries)
  moreover have "map_of calcinfo ''PBE-D4 DISPERSION CORRECTION GRADIENT'' = Some (return_result out)"
    by (simp add: k rr base_def pbe_d4_entries)
  ultimately show "\<exists>qcvars.
      map_of (out_extras out) ''qcvars'' = Some (PDict qcvars) \<and>
      map_of qcvars ''CURRENT ENERGY'' = Some (PFloat (return_energy out)) \<and>
      map_of qcvars ''DISPERSION CORRECTION ENERGY'' = Some (PFloat (return_energy out)) \<and>
      map_of qcvars ''PBE-D4 DISPERSION CORRECTION ENERGY'' = Some (PFloat (return_energy out)) \<and>
      map_of qcvars ''CURRENT GRADIENT'' = Some (return_result out) \<and>
      map_of qcvars ''DISPERSION CORRECTION GRADIENT'' = Some (return_result out) \<and>
      map_of qcvars ''PBE-D4 DISPERSION CORRECTION GRADIENT'' = Some (return_result out)"
    using q by blast
qed


text \<open>A gradient of \<^verbatim>\<open>pbe\<close> in the example environment, with the whole result.\<close>

theorem gradient_qcvars_witness:
  "driver (example_input Gradient ''pbe'' [] []) = Gradient \<and>
   call_from_arrays example_env
     (from_arrays_args (example_input Gradient ''pbe'' [] [])
        (fst (strip_engine_hint (example_input Gradient ''pbe'' [] [])))) =
     Inr (PDict [(''dashlevel'', PStr ''d4bj''), (''fctldash'', PStr ''pbe-d4'')]) \<and>
   map_of [(''dashlevel'', PStr ''d4bj''), (''fctldash'', PStr ''pbe-d4'')] ''fctldash'' =
     Some (PStr ''pbe-d4'' :: rat pyval) \<and>
   compute example_env (example_input Gradient ''pbe'' [] []) =
     Inr \<lparr>return_energy = - 3 / 1000,
          return_result = PArray [1 / 100, 0, 0, - 1 / 100, 0, 0],
          out_extras =
            [(''info'', PDict [(''dashlevel'', PStr ''d4bj''), (''fctldash'', PStr ''pbe-d4'')]),
             (''dftd4'',
              PDict [(''additive pairwise energy'', PArray [0, - 1 / 1000, - 1 / 1000, 0]),
                     (''non-additive pairwise energy'', PArray [0, - 1 / 2000, - 1 / 2000, 0])]),
             (''qcvars'',
              PDict [(''CURRENT ENERGY'', PFloat (- 3 / 1000)),
                     (''DISPERSION CORRECTION ENERGY'', PFloat (- 3 / 1000)),
                     (''PBE-D4 DISPERSION CORRECTION ENERGY'', PFloat (- 3 / 1000)),
                     (''CURRENT GRADIENT'', PArray [1 / 100, 0, 0, - 1 / 100, 0, 0]),
                     (''DISPERSION CORRECTION GRADIENT'', PArray [1 / 100, 0, 0, - 1 / 100, 0, 0]),
                     (''PBE-D4 DISPERSION CORRECTION GRADIENT'',
                      PArray [1 / 100, 0, 0, - 1 / 100, 0, 0])])]\<rparr>"
proof -
  have c: "call_from_arrays example_env
     (from_arrays_args (example_input Gradient ''pbe'' [] [])
        (fst (strip_engine_hint (example_input Gradient ''pbe'' [] [])))) =
     Inr (PDict [(''dashlevel'', PStr ''d4bj''), (''fctldash'', PStr ''pbe-d4'')])"
    by (simp add: example_defs string_defs build_defs dict_defs Let_def)
  have r: "compute example_env (example_input Gradient ''pbe'' [] []) =
     Inr \<lparr>return_energy = - 3 / 1000,
          return_result = PArray [1 / 100, 0, 0, - 1 / 100, 0, 0],
          out_extras =
            [(''info'', PDict [(''dashlevel'', PStr ''d4bj''), (''fctldash'', PStr ''pbe-d4'')]),
             (''dftd4'',
              PDict [(''additive pairwise energy'', PArray [0, - 1 / 1000, - 1 / 1000, 0]),
                     (''non-additive pairwise energy'', PArray [0, - 1 / 2000, - 1 / 2000, 0])]),
             (''qcvars'',
              PDict [(''CURRENT ENERGY'', PFloat (- 3 / 1000)),
                     (''DISPERSION CORRECTION ENERGY'', PFloat (- 3 / 1000)),
                     (''PBE-D4 DISPERSION CORRECTION ENERGY'', PFloat (- 3 / 1000)),
                     (''CURRENT GRADIENT'', PArray [1 / 100, 0, 0, - 1 / 100, 0, 0]),
                     (''DISPERSION CORRECTION GRADIENT'', PArray [1 / 100, 0, 0, - 1 / 100, 0, 0]),
                     (''PBE-D4 DISPERSION CORRECTION GRADIENT'',
                      PArray [1 / 100, 0, 0, - 1 / 100, 0, 0])])]\<rparr>"
    by (simp add: compute_def found_def example_defs string_defs build_defs dict_defs
        annotate_defs Let_def)
  show ?thesis
    using gradient_qcvars [of "example_input Gradient ''pbe'' [] []" example_env
        "[(''dashlevel'', PStr ''d4bj''), (''fctldash'', PStr ''pbe-d4'')]"] c r
    by (simp add: example_input_def)
qed


section \<open>The extras of the result\<close>









section \<open>The pairwise energies\<close>






end
